theory Spec2Isabelle
  imports
    Main
    "HOL-Library.Multiset"
    "HOL-Library.Char_ord"
    "HOL-Library.List_Lexorder"
    "HOL-Library.Product_Lexorder"
begin

section \<open>Data model (internal/models/models.go)\<close>

text \<open>
  Go strings are byte sequences compared bytewise, which is the lexicographic order on
  \<^typ>\<open>string\<close> given by \<open>List_Lexorder\<close> over \<open>Char_ord\<close>. A \<open>*time.Time\<close> is a
  \<^typ>\<open>nat option\<close>: \<open>None\<close> is the nil pointer, the number is an instant.
\<close>

type_synonym time = nat

record User =
  UserID :: string
  Username :: string
  TeamName :: string
  IsActive :: bool

datatype PullRequestStatus = StatusOpen | StatusMerged

record PullRequest =
  PullRequestID :: string
  PullRequestName :: string
  AuthorID :: string
  Status :: PullRequestStatus
  AssignedReviewers :: "string list"
  CreatedAt :: "time option"
  MergedAt :: "time option"

datatype ErrorCode =
  ErrTeamExists | ErrPRExists | ErrPRMerged | ErrNotAssigned | ErrNoCandidate | ErrNotFound

text \<open>
  A Go \<open>error\<close> returned by the service is either a \<open>*ServiceError\<close> (code and message)
  or whatever the storage returned, which the service passes on unchanged.
\<close>

datatype error =
  ServiceError (Code: ErrorCode) (Message: string)
| StorageError string

section \<open>The storage interface (internal/storage/storage.go)\<close>

text \<open>
  The service holds a \<open>repository.Storage\<close>, an interface. It is a record of the methods
  the modelled operations call, over the storage's own state \<open>'s\<close>. A query returns
  \<open>Inl err\<close> or \<open>Inr result\<close>, a nil pointer with a nil error being \<open>Inr None\<close>; a command
  returns the error (\<open>None\<close> for nil) and the storage's next state. A value returned by a
  query is a fresh copy, as in the PostgreSQL implementation, so that changing it does not
  change the storage.

  \<open>GetReviewCounts\<close> returns a \<open>map[string]int\<close>; reading a key the map does not hold
  gives 0, which \<open>count_of\<close> does. The counts are only compared, so the 64-bit Go \<open>int\<close>
  is an \<^typ>\<open>int\<close>.
\<close>

record 's Storage =
  GetUser :: "'s \<Rightarrow> string \<Rightarrow> error + User option"
  GetUsersByTeam :: "'s \<Rightarrow> string \<Rightarrow> error + User list"
  CreatePullRequestRow :: "'s \<Rightarrow> PullRequest \<Rightarrow> error option \<times> 's"
  GetPullRequest :: "'s \<Rightarrow> string \<Rightarrow> error + PullRequest option"
  UpdatePullRequest :: "'s \<Rightarrow> PullRequest \<Rightarrow> error option \<times> 's"
  PullRequestExists :: "'s \<Rightarrow> string \<Rightarrow> error + bool"
  GetReviewCounts :: "'s \<Rightarrow> string list \<Rightarrow> error + (string \<rightharpoonup> int)"

definition count_of :: "(string \<rightharpoonup> int) \<Rightarrow> string \<Rightarrow> int" where
  "count_of counts k = (case counts k of None \<Rightarrow> 0 | Some c \<Rightarrow> c)"

section \<open>Library functions the service calls (math/rand, sort)\<close>

text \<open>
  The generator \<open>s.rng\<close> is a \<open>*rand.Rand\<close> of the Go library. Its state is a natural
  number used as an oracle: \<open>Intn n\<close> returns the state's residue modulo \<open>n\<close> and leaves
  the quotient, so that every result lies in \<open>[0, n)\<close> and every finite sequence of
  results comes from some state. \<open>Intn\<close> panics for \<open>n \<le> 0\<close>; the service calls it only
  behind a check that the slice indexed is not empty.
\<close>

type_synonym rng = nat

definition Intn :: "rng \<Rightarrow> nat \<Rightarrow> nat \<times> rng" where
  "Intn g n = (g mod n, g div n)"

text \<open>
  \<open>rand.Shuffle(n, swap)\<close> runs \<open>for i := n - 1; i > 0; i-- { j := Intn(i + 1); swap(i, j) }\<close>;
  the service's \<open>swap\<close> exchanges \<open>candidates[i]\<close> and \<open>candidates[j]\<close>.
\<close>

definition swap :: "nat \<Rightarrow> nat \<Rightarrow> 'a list \<Rightarrow> 'a list" where
  "swap i j xs = xs[i := xs ! j, j := xs ! i]"

fun shuffle_from :: "nat \<Rightarrow> rng \<Rightarrow> 'a list \<Rightarrow> 'a list \<times> rng" where
  "shuffle_from 0 g xs = (xs, g)"
| "shuffle_from (Suc i) g xs =
     (case Intn g (Suc i + 1) of (j, g') \<Rightarrow> shuffle_from i g' (swap (Suc i) j xs))"

definition Shuffle :: "rng \<Rightarrow> 'a list \<Rightarrow> 'a list \<times> rng" where
  "Shuffle g xs = shuffle_from (length xs - 1) g xs"

text \<open>
  \<open>sort.Slice(xs, less)\<close> reorders \<open>xs\<close> so that no element is \<open>less\<close> than one before it.
  It is an insertion sort here. \<open>sort.Slice\<close> is not stable, so only what holds of every
  sorted permutation is a property of the code: \<open>ids_of_sorted_perm\<close> below shows that the
  ids the service reads off do not depend on the algorithm.
\<close>

fun insert_less :: "('a \<Rightarrow> 'a \<Rightarrow> bool) \<Rightarrow> 'a \<Rightarrow> 'a list \<Rightarrow> 'a list" where
  "insert_less lt x [] = [x]"
| "insert_less lt x (y # ys) =
     (if lt y x then y # insert_less lt x ys else x # y # ys)"

definition sort_Slice :: "('a \<Rightarrow> 'a \<Rightarrow> bool) \<Rightarrow> 'a list \<Rightarrow> 'a list" where
  "sort_Slice lt xs = foldr (insert_less lt) xs []"

section \<open>The service (internal/domain/service/service.go)\<close>

subsection \<open>randomSelection\<close>

definition randomSelection :: "rng \<Rightarrow> User list \<Rightarrow> nat \<Rightarrow> string list \<times> rng" where
  "randomSelection g candidates maxCount =
     (if length candidates \<le> maxCount then (map UserID candidates, g)
      else case Shuffle g candidates of
        (shuffled, g') \<Rightarrow> (map UserID (take maxCount shuffled), g'))"

subsection \<open>assignReviewers\<close>

definition is_candidate :: "string \<Rightarrow> User \<Rightarrow> bool" where
  "is_candidate authorID member \<longleftrightarrow> IsActive member \<and> UserID member \<noteq> authorID"

text \<open>The comparison function handed to \<open>sort.Slice\<close>.\<close>

definition less_by_load :: "(string \<rightharpoonup> int) \<Rightarrow> User \<Rightarrow> User \<Rightarrow> bool" where
  "less_by_load counts a b =
     (let countI = count_of counts (UserID a); countJ = count_of counts (UserID b)
      in if countI \<noteq> countJ then countI < countJ else UserID a < UserID b)"

definition assignReviewers ::
  "'s Storage \<Rightarrow> 's \<Rightarrow> rng \<Rightarrow> User list \<Rightarrow> string \<Rightarrow> string list \<times> rng" where
  "assignReviewers repo s g teamMembers authorID =
     (let candidates = filter (is_candidate authorID) teamMembers;
          candidateIDs = map UserID candidates
      in if length candidates = 0 then ([], g)
         else case GetReviewCounts repo s candidateIDs of
           Inl err \<Rightarrow> randomSelection g candidates 2
         | Inr counts \<Rightarrow>
             (map UserID (take 2 (sort_Slice (less_by_load counts) candidates)), g))"

subsection \<open>findReplacement\<close>

text \<open>
  \<open>excluded\<close> is a \<open>map[string]bool\<close>; a key it does not hold reads as \<open>false\<close>.
\<close>

definition excluded_set :: "string \<Rightarrow> string list \<Rightarrow> (string \<rightharpoonup> bool)" where
  "excluded_set authorID currentReviewers =
     foldl (\<lambda>m reviewerID. m(reviewerID \<mapsto> True)) [authorID \<mapsto> True] currentReviewers"

definition is_excluded :: "(string \<rightharpoonup> bool) \<Rightarrow> string \<Rightarrow> bool" where
  "is_excluded excluded k = (case excluded k of None \<Rightarrow> False | Some b \<Rightarrow> b)"

definition replacement_candidates :: "User list \<Rightarrow> string \<Rightarrow> string list \<Rightarrow> User list" where
  "replacement_candidates teamMembers authorID currentReviewers =
     (let excluded = excluded_set authorID currentReviewers
      in filter (\<lambda>member. IsActive member \<and> \<not> is_excluded excluded (UserID member)) teamMembers)"

text \<open>
  The loop that collects the candidates of least load; its state is \<open>(minCount, selected)\<close>,
  started at \<open>(-1, nil)\<close>.
\<close>

fun min_load_loop :: "(string \<rightharpoonup> int) \<Rightarrow> User list \<Rightarrow> int \<times> User list \<Rightarrow> int \<times> User list" where
  "min_load_loop counts [] st = st"
| "min_load_loop counts (candidate # rest) (minCount, selected) =
     (let count = count_of counts (UserID candidate)
      in if minCount = - 1 \<or> count < minCount then min_load_loop counts rest (count, [candidate])
         else if count = minCount then min_load_loop counts rest (minCount, selected @ [candidate])
         else min_load_loop counts rest (minCount, selected))"

definition no_candidate :: error where
  "no_candidate = ServiceError ErrNoCandidate ''no active replacement candidate in team''"

definition findReplacement ::
  "'s Storage \<Rightarrow> 's \<Rightarrow> rng \<Rightarrow> User list \<Rightarrow> string \<Rightarrow> string list \<Rightarrow> (error + string) \<times> rng" where
  "findReplacement repo s g teamMembers authorID currentReviewers =
     (let candidates = replacement_candidates teamMembers authorID currentReviewers
      in if length candidates = 0 then (Inl no_candidate, g)
         else case GetReviewCounts repo s (map UserID candidates) of
           Inl err \<Rightarrow>
             (case Intn g (length candidates) of (k, g') \<Rightarrow> (Inr (UserID (candidates ! k)), g'))
         | Inr counts \<Rightarrow>
             (let selected = snd (min_load_loop counts candidates (- 1, []))
              in if length selected > 0
                 then case Intn g (length selected) of
                        (k, g') \<Rightarrow> (Inr (UserID (selected ! k)), g')
                 else (Inl no_candidate, g)))"

subsection \<open>CreatePullRequest\<close>

definition CreatePullRequest ::
  "'s Storage \<Rightarrow> time \<Rightarrow> 's \<Rightarrow> rng \<Rightarrow> string \<Rightarrow> string \<Rightarrow> string \<Rightarrow>
     (error + PullRequest) \<times> 's \<times> rng" where
  "CreatePullRequest repo now s g prID prName authorID =
     (case PullRequestExists repo s prID of
        Inl err \<Rightarrow> (Inl err, s, g)
      | Inr exists \<Rightarrow>
          if exists then (Inl (ServiceError ErrPRExists ''PR id already exists''), s, g)
          else (case GetUser repo s authorID of
            Inl err \<Rightarrow> (Inl err, s, g)
          | Inr None \<Rightarrow> (Inl (ServiceError ErrNotFound ''author not found''), s, g)
          | Inr (Some author) \<Rightarrow>
              (case GetUsersByTeam repo s (TeamName author) of
                 Inl err \<Rightarrow> (Inl err, s, g)
               | Inr teamMembers \<Rightarrow>
                   (case assignReviewers repo s g teamMembers authorID of
                      (reviewers, g') \<Rightarrow>
                        (let pr = (\<lparr>PullRequestID = prID, PullRequestName = prName,
                                    AuthorID = authorID, Status = StatusOpen,
                                    AssignedReviewers = reviewers,
                                    CreatedAt = Some now, MergedAt = None\<rparr>)
                         in (case CreatePullRequestRow repo s pr of
                               (Some err, s') \<Rightarrow> (Inl err, s', g')
                             | (None, s') \<Rightarrow> (Inr pr, s', g')))))))"

subsection \<open>MergePullRequest\<close>

definition MergePullRequest ::
  "'s Storage \<Rightarrow> time \<Rightarrow> 's \<Rightarrow> string \<Rightarrow> (error + PullRequest) \<times> 's" where
  "MergePullRequest repo now s prID =
     (case GetPullRequest repo s prID of
        Inl err \<Rightarrow> (Inl err, s)
      | Inr None \<Rightarrow> (Inl (ServiceError ErrNotFound ''PR not found''), s)
      | Inr (Some pr) \<Rightarrow>
          if Status pr = StatusMerged then (Inr pr, s)
          else (let pr' = pr\<lparr>Status := StatusMerged, MergedAt := Some now\<rparr>
                in case UpdatePullRequest repo s pr' of
                     (Some err, s') \<Rightarrow> (Inl err, s')
                   | (None, s') \<Rightarrow> (Inr pr', s')))"

subsection \<open>ReassignReviewer\<close>

text \<open>
  The search for \<open>oldReviewerID\<close>: \<open>reviewerIndex\<close> starts at \<open>-1\<close> and becomes the index of
  the first match, where the loop breaks. The second argument is the rest of the slice and
  the third the index of its head.
\<close>

fun find_reviewerIndex :: "string \<Rightarrow> string list \<Rightarrow> int \<Rightarrow> int" where
  "find_reviewerIndex oldReviewerID [] i = - 1"
| "find_reviewerIndex oldReviewerID (reviewerID # rest) i =
     (if reviewerID = oldReviewerID then i else find_reviewerIndex oldReviewerID rest (i + 1))"

definition ReassignReviewer ::
  "'s Storage \<Rightarrow> 's \<Rightarrow> rng \<Rightarrow> string \<Rightarrow> string \<Rightarrow>
     (error + PullRequest \<times> string) \<times> 's \<times> rng" where
  "ReassignReviewer repo s g prID oldReviewerID =
     (case GetPullRequest repo s prID of
        Inl err \<Rightarrow> (Inl err, s, g)
      | Inr None \<Rightarrow> (Inl (ServiceError ErrNotFound ''PR not found''), s, g)
      | Inr (Some pr) \<Rightarrow>
          if Status pr = StatusMerged
          then (Inl (ServiceError ErrPRMerged ''cannot reassign on merged PR''), s, g)
          else (let reviewerIndex = find_reviewerIndex oldReviewerID (AssignedReviewers pr) 0
                in if reviewerIndex = - 1
                   then (Inl (ServiceError ErrNotAssigned ''reviewer is not assigned to this PR''), s, g)
                   else case GetUser repo s oldReviewerID of
                     Inl err \<Rightarrow> (Inl err, s, g)
                   | Inr None \<Rightarrow> (Inl (ServiceError ErrNotFound ''old reviewer not found''), s, g)
                   | Inr (Some oldReviewer) \<Rightarrow>
                       (case GetUsersByTeam repo s (TeamName oldReviewer) of
                          Inl err \<Rightarrow> (Inl err, s, g)
                        | Inr teamMembers \<Rightarrow>
                            (case findReplacement repo s g teamMembers (AuthorID pr)
                                    (AssignedReviewers pr) of
                               (Inl err, g') \<Rightarrow> (Inl err, s, g')
                             | (Inr newReviewerID, g') \<Rightarrow>
                                 (let pr' = pr\<lparr>AssignedReviewers :=
                                              (AssignedReviewers pr)[nat reviewerIndex := newReviewerID]\<rparr>
                                  in case UpdatePullRequest repo s pr' of
                                       (Some err, s') \<Rightarrow> (Inl err, s', g')
                                     | (None, s') \<Rightarrow> (Inr (pr', newReviewerID), s', g'))))))"

section \<open>The PostgreSQL storage over in-memory tables\<close>

text \<open>
  The implementation of the interface that the server uses runs SQL on two tables the
  service reads: \<open>users\<close> (primary key \<open>user_id\<close>) and \<open>pull_requests\<close> (primary key
  \<open>pull_request_id\<close>, \<open>author_id\<close> a foreign key into \<open>users\<close>). Here a table is the list
  of its rows and each method is its query on those lists; a statement that violates a key
  fails, and the connection itself never does. This instance is what the general theorems
  below are run on.
\<close>

record db =
  users :: "User list"
  pull_requests :: "PullRequest list"

definition pg_GetUser :: "db \<Rightarrow> string \<Rightarrow> error + User option" where
  "pg_GetUser d userID = Inr (find (\<lambda>u. UserID u = userID) (users d))"

definition pg_GetUsersByTeam :: "db \<Rightarrow> string \<Rightarrow> error + User list" where
  "pg_GetUsersByTeam d teamName = Inr (filter (\<lambda>u. TeamName u = teamName) (users d))"

definition pg_PullRequestExists :: "db \<Rightarrow> string \<Rightarrow> error + bool" where
  "pg_PullRequestExists d prID = Inr (list_ex (\<lambda>row. PullRequestID row = prID) (pull_requests d))"

definition pg_GetPullRequest :: "db \<Rightarrow> string \<Rightarrow> error + PullRequest option" where
  "pg_GetPullRequest d prID = Inr (find (\<lambda>row. PullRequestID row = prID) (pull_requests d))"

definition pg_CreatePullRequest :: "db \<Rightarrow> PullRequest \<Rightarrow> error option \<times> db" where
  "pg_CreatePullRequest d pr =
     (if list_ex (\<lambda>row. PullRequestID row = PullRequestID pr) (pull_requests d)
      then (Some (StorageError ''duplicate key value violates unique constraint''), d)
      else if \<not> list_ex (\<lambda>u. UserID u = AuthorID pr) (users d)
      then (Some (StorageError ''violates foreign key constraint''), d)
      else (None, d\<lparr>pull_requests := pull_requests d @ [pr\<lparr>MergedAt := None\<rparr>]\<rparr>))"

definition pg_UpdatePullRequest :: "db \<Rightarrow> PullRequest \<Rightarrow> error option \<times> db" where
  "pg_UpdatePullRequest d pr =
     (if list_ex (\<lambda>row. PullRequestID row = PullRequestID pr) (pull_requests d)
         \<and> \<not> list_ex (\<lambda>u. UserID u = AuthorID pr) (users d)
      then (Some (StorageError ''violates foreign key constraint''), d)
      else (None, d\<lparr>pull_requests :=
              map (\<lambda>row. if PullRequestID row = PullRequestID pr
                         then row\<lparr>PullRequestName := PullRequestName pr, AuthorID := AuthorID pr,
                                  Status := Status pr, AssignedReviewers := AssignedReviewers pr,
                                  MergedAt := MergedAt pr\<rparr>
                         else row) (pull_requests d)\<rparr>))"

definition pg_GetReviewCounts :: "db \<Rightarrow> string list \<Rightarrow> error + (string \<rightharpoonup> int)" where
  "pg_GetReviewCounts d userIDs =
     (if length userIDs = 0 then Inr Map.empty
      else let reviewer_ids =
                 concat (map AssignedReviewers
                   (filter (\<lambda>row. Status row = StatusOpen) (pull_requests d)));
               counts = (\<lambda>k. if k \<in> set reviewer_ids
                              then Some (int (count_list reviewer_ids k)) else None)
           in Inr (foldl (\<lambda>m userID. if m userID = None then m(userID \<mapsto> 0) else m)
                     counts userIDs))"

definition PostgresStorage :: "db Storage" where
  "PostgresStorage =
     \<lparr>GetUser = pg_GetUser, GetUsersByTeam = pg_GetUsersByTeam,
      CreatePullRequestRow = pg_CreatePullRequest, GetPullRequest = pg_GetPullRequest,
      UpdatePullRequest = pg_UpdatePullRequest, PullRequestExists = pg_PullRequestExists,
      GetReviewCounts = pg_GetReviewCounts\<rparr>"

text \<open>The same storage with the load query failing, as it does when the connection is lost.\<close>

definition PostgresStorage_counts_down :: "db Storage" where
  "PostgresStorage_counts_down =
     PostgresStorage\<lparr>GetReviewCounts := (\<lambda>d userIDs. Inl (StorageError ''connection refused''))\<rparr>"

section \<open>What the specification says, as definitions\<close>

text \<open>
  The candidates of the initial assignment ranked as the specification words it: sorted by
  review load ascending, the user id ascending breaking ties. The key is the pair
  \<open>(load, id)\<close> in its lexicographic order, and the sort is the library's.
\<close>

definition ranked_candidate_ids :: "(string \<rightharpoonup> int) \<Rightarrow> User list \<Rightarrow> string list" where
  "ranked_candidate_ids counts candidates =
     map UserID (sort_key (\<lambda>c. (count_of counts (UserID c), UserID c)) candidates)"

text \<open>
  The invariant of a pull request's reviewer list: the author is not in it, no id occurs
  twice, and it holds at most two ids.
\<close>

definition reviewers_ok :: "PullRequest \<Rightarrow> bool" where
  "reviewers_ok pr \<longleftrightarrow>
     AuthorID pr \<notin> set (AssignedReviewers pr) \<and> distinct (AssignedReviewers pr)
     \<and> length (AssignedReviewers pr) \<le> 2"

section \<open>Example data\<close>

text \<open>
  Team \<open>T\<close> has the active members A, B, C, D and the inactive E; team \<open>S\<close> has Z alone.
  A is the author of the open \<open>pr1\<close>, reviewed by B and C, and of the merged \<open>pr2\<close>,
  reviewed by B. So B and C each carry one open review and D none.
\<close>

definition team_member :: "string \<Rightarrow> string \<Rightarrow> bool \<Rightarrow> User" where
  "team_member userID teamName active =
     \<lparr>UserID = userID, Username = userID, TeamName = teamName, IsActive = active\<rparr>"

definition team_T :: "User list" where
  "team_T = [team_member ''A'' ''T'' True, team_member ''C'' ''T'' True, team_member ''B'' ''T'' True,
             team_member ''D'' ''T'' True, team_member ''E'' ''T'' False]"

definition example_pr1 :: PullRequest where
  "example_pr1 = \<lparr>PullRequestID = ''pr1'', PullRequestName = ''first'', AuthorID = ''A'',
          Status = StatusOpen, AssignedReviewers = [''B'', ''C''],
          CreatedAt = Some 1, MergedAt = None\<rparr>"

definition example_pr2 :: PullRequest where
  "example_pr2 = \<lparr>PullRequestID = ''pr2'', PullRequestName = ''second'', AuthorID = ''A'',
          Status = StatusMerged, AssignedReviewers = [''B''],
          CreatedAt = Some 2, MergedAt = Some 3\<rparr>"

definition example_db :: db where
  "example_db = \<lparr>users = team_T @ [team_member ''Z'' ''S'' True], pull_requests = [example_pr1, example_pr2]\<rparr>"

section \<open>Facts about the library functions and the loops\<close>

lemma Intn_less: "0 < n \<Longrightarrow> fst (Intn g n) < n"
  by (simp add: Intn_def)

lemma mset_swap_list: "i < length xs \<Longrightarrow> j < length xs \<Longrightarrow> mset (swap i j xs) = mset xs"
  by (simp add: swap_def mset_swap)

lemma length_swap: "length (swap i j xs) = length xs"
  by (simp add: swap_def)

lemma mset_shuffle_from:
  "i < length xs \<Longrightarrow> mset (fst (shuffle_from i g xs)) = mset xs"
proof (induction i arbitrary: g xs)
  case 0
  then show ?case by simp
next
  case (Suc i)
  have "g mod (Suc (Suc i)) < Suc (Suc i)" by simp
  then have j: "g mod (Suc (Suc i)) < length xs"
    using Suc.prems by linarith
  have "mset (fst (shuffle_from i (g div Suc (Suc i)) (swap (Suc i) (g mod Suc (Suc i)) xs)))
          = mset (swap (Suc i) (g mod Suc (Suc i)) xs)"
    using Suc.prems by (intro Suc.IH) (simp add: length_swap)
  then show ?case using Suc.prems j
    by (simp add: Intn_def mset_swap_list)
qed

lemma mset_Shuffle: "mset (fst (Shuffle g xs)) = mset xs"
  by (cases xs) (simp_all add: Shuffle_def mset_shuffle_from)

lemma is_excluded_foldl:
  "is_excluded (foldl (\<lambda>m reviewerID. m(reviewerID \<mapsto> True)) m0 rs) k
     \<longleftrightarrow> is_excluded m0 k \<or> k \<in> set rs"
  by (induction rs arbitrary: m0) (auto simp: is_excluded_def)

lemma is_excluded_iff:
  "is_excluded (excluded_set authorID currentReviewers) k
     \<longleftrightarrow> k = authorID \<or> k \<in> set currentReviewers"
  by (auto simp: excluded_set_def is_excluded_foldl) (auto simp: is_excluded_def split: if_splits)

lemma replacement_candidates_eq:
  "replacement_candidates teamMembers authorID currentReviewers =
     filter (\<lambda>m. IsActive m \<and> UserID m \<noteq> authorID \<and> UserID m \<notin> set currentReviewers) teamMembers"
  by (simp add: replacement_candidates_def is_excluded_iff)

lemma min_load_loop_subset:
  "set (snd (min_load_loop counts cs st)) \<subseteq> set (snd st) \<union> set cs"
  by (induction counts cs st rule: min_load_loop.induct) (auto simp: Let_def)

lemma min_load_loop_nonempty:
  "snd st \<noteq> [] \<or> (fst st = - 1 \<and> cs \<noteq> []) \<Longrightarrow> snd (min_load_loop counts cs st) \<noteq> []"
  by (induction counts cs st rule: min_load_loop.induct) (auto simp: Let_def)

lemma insert_less_insort:
  "(\<And>a b. lt a b \<longleftrightarrow> f a < f b) \<Longrightarrow> insert_less lt x ys = insort_key f x ys"
  by (induction ys) (auto simp: not_le)

lemma sort_Slice_sort_key:
  assumes "\<And>a b. lt a b \<longleftrightarrow> f a < f b"
  shows "sort_Slice lt xs = sort_key f xs"
proof -
  have "insert_less lt = insort_key f"
    using insert_less_insort[of lt f, OF assms] by (intro ext) 
  then show ?thesis by (simp add: sort_Slice_def sort_key_def)
qed

lemma less_by_load_key:
  "less_by_load counts a b \<longleftrightarrow>
     (count_of counts (UserID a), UserID a) < (count_of counts (UserID b), UserID b)"
  by (auto simp: less_by_load_def Let_def less_prod_def)

lemma find_reviewerIndex_range:
  "find_reviewerIndex old rs i = - 1 \<or>
     (i \<le> find_reviewerIndex old rs i \<and> find_reviewerIndex old rs i < i + int (length rs))"
  by (induction old rs i rule: find_reviewerIndex.induct) auto

lemma find_reviewerIndex_notin:
  "0 \<le> i \<Longrightarrow> find_reviewerIndex old rs i = - 1 \<longleftrightarrow> old \<notin> set rs"
proof (induction old rs i rule: find_reviewerIndex.induct)
  case (1 old i) then show ?case by simp
next
  case (2 old r rest i)
  then show ?case by auto
qed

lemma find_reviewerIndex_split:
  "old \<in> set rs \<Longrightarrow>
     \<exists>pre post. rs = pre @ old # post \<and> old \<notin> set pre
        \<and> find_reviewerIndex old rs i = i + int (length pre)"
proof (induction rs arbitrary: i)
  case Nil
  then show ?case by simp
next
  case (Cons r rest)
  show ?case
  proof (cases "r = old")
    case True
    then have "r # rest = [] @ old # rest \<and> old \<notin> set []
        \<and> find_reviewerIndex old (r # rest) i = i + int (length ([]::string list))"
      by simp
    then show ?thesis by blast
  next
    case False
    with Cons.prems have "old \<in> set rest" by simp
    from Cons.IH[OF this, of "i + 1"] obtain pre post where
      p: "rest = pre @ old # post" "old \<notin> set pre"
         "find_reviewerIndex old rest (i + 1) = i + 1 + int (length pre)"
      by blast
    have "r # rest = (r # pre) @ old # post \<and> old \<notin> set (r # pre)
        \<and> find_reviewerIndex old (r # rest) i = i + int (length (r # pre))"
      using p False by simp
    then show ?thesis by blast
  qed
qed

lemma findReplacement_result:
  "findReplacement repo s g tm a cur = (res, g') \<Longrightarrow>
     (replacement_candidates tm a cur = [] \<and> res = Inl no_candidate \<and> g' = g)
   \<or> (replacement_candidates tm a cur \<noteq> [] \<and>
        (\<exists>c \<in> set (replacement_candidates tm a cur). res = Inr (UserID c)))"
proof -
  let ?cands = "replacement_candidates tm a cur"
  assume r: "findReplacement repo s g tm a cur = (res, g')"
  show ?thesis
  proof (cases "?cands = []")
    case True
    with r show ?thesis by (simp add: findReplacement_def)
  next
    case False
    then have n: "0 < length ?cands" by simp
    show ?thesis
    proof (cases "GetReviewCounts repo s (map UserID ?cands)")
      case (Inl err)
      have "?cands ! (g mod length ?cands) \<in> set ?cands"
        using n by (intro nth_mem) simp
      with r False Inl show ?thesis
        by (auto simp: findReplacement_def Intn_def Let_def)
    next
      case (Inr counts)
      let ?sel = "snd (min_load_loop counts ?cands (- 1, []))"
      have ne: "?sel \<noteq> []" using False by (intro min_load_loop_nonempty) simp
      then have "?sel ! (g mod length ?sel) \<in> set ?sel" by (intro nth_mem) simp
      moreover have "set ?sel \<subseteq> set ?cands"
        using min_load_loop_subset[of counts ?cands "(- 1, [])"] by simp
      ultimately have "?sel ! (g mod length ?sel) \<in> set ?cands" by blast
      with r False Inr ne show ?thesis
        by (auto simp: findReplacement_def Intn_def Let_def)
    qed
  qed
qed

lemma PostgresStorage_counts_Inr:
  "GetReviewCounts PostgresStorage d userIDs =
     Inr (projr (GetReviewCounts PostgresStorage d userIDs))"
  by (simp add: PostgresStorage_def pg_GetReviewCounts_def Let_def)

section \<open>Initial assignment with no candidate\<close>

text \<open>
  C2. For every list of team members and every author id such that no member is both
  active and distinct from the author, \<open>assignReviewers\<close> returns the empty list; it has no
  error to return and leaves the generator alone. \<open>CreatePullRequest\<close> then hands the
  storage an open pull request with no reviewer and, the storage accepting it, returns it.
\<close>

theorem assignReviewers_no_candidates:
  assumes "\<forall>m \<in> set teamMembers. \<not> (IsActive m \<and> UserID m \<noteq> authorID)"
  shows "assignReviewers repo s g teamMembers authorID = ([], g)
         \<and> (PullRequestExists repo s prID = Inr False
              \<longrightarrow> GetUser repo s authorID = Inr (Some author)
              \<longrightarrow> GetUsersByTeam repo s (TeamName author) = Inr teamMembers
              \<longrightarrow> CreatePullRequestRow repo s
                     \<lparr>PullRequestID = prID, PullRequestName = prName, AuthorID = authorID,
                      Status = StatusOpen, AssignedReviewers = [],
                      CreatedAt = Some now, MergedAt = None\<rparr> = (None, s')
              \<longrightarrow> CreatePullRequest repo now s g prID prName authorID =
                    (Inr \<lparr>PullRequestID = prID, PullRequestName = prName, AuthorID = authorID,
                          Status = StatusOpen, AssignedReviewers = [],
                          CreatedAt = Some now, MergedAt = None\<rparr>, s', g))"
proof -
  have "filter (is_candidate authorID) teamMembers = []"
    using assms by (simp add: filter_empty_conv is_candidate_def)
  then have a: "assignReviewers repo s g teamMembers authorID = ([], g)"
    by (simp add: assignReviewers_def)
  then show ?thesis
    by (simp add: CreatePullRequest_def)
qed

theorem assignReviewers_no_candidates_witness:
  "filter (is_candidate ''Z'') [team_member ''Z'' ''S'' True, team_member ''Y'' ''S'' False] = []
   \<and> assignReviewers PostgresStorage example_db 3
        [team_member ''Z'' ''S'' True, team_member ''Y'' ''S'' False] ''Z'' = ([], 3)
   \<and> fst (CreatePullRequest PostgresStorage 9 example_db 3 ''pr3'' ''third'' ''Z'') =
        Inr \<lparr>PullRequestID = ''pr3'', PullRequestName = ''third'', AuthorID = ''Z'',
             Status = StatusOpen, AssignedReviewers = [],
             CreatedAt = Some 9, MergedAt = None\<rparr>"
proof -
  have h: "\<forall>m \<in> set [team_member ''Z'' ''S'' True, team_member ''Y'' ''S'' False].
       \<not> (IsActive m \<and> UserID m \<noteq> ''Z'')"
    by (simp add: team_member_def)
  have f: "filter (is_candidate ''Z'') [team_member ''Z'' ''S'' True, team_member ''Y'' ''S'' False] = []"
    by (simp add: team_member_def is_candidate_def)
  have c: "fst (CreatePullRequest PostgresStorage 9 example_db 3 ''pr3'' ''third'' ''Z'') =
        Inr \<lparr>PullRequestID = ''pr3'', PullRequestName = ''third'', AuthorID = ''Z'',
             Status = StatusOpen, AssignedReviewers = [],
             CreatedAt = Some 9, MergedAt = None\<rparr>"
    by code_simp
  show ?thesis
    using f c assignReviewers_no_candidates[OF h, of PostgresStorage example_db 3] by simp
qed

section \<open>Replacement selection\<close>

text \<open>
  C3. Whenever \<open>findReplacement\<close> succeeds, whatever the storage answered to the load
  query (so on the load-based path and on the random fallback path alike), the id returned
  is not the author's, is not in the list of current reviewers, and is the id of an active
  team member.
\<close>

theorem findReplacement_never_excluded:
  assumes "findReplacement repo s g teamMembers authorID currentReviewers = (Inr r, g')"
  shows "r \<noteq> authorID \<and> r \<notin> set currentReviewers
         \<and> (\<exists>m \<in> set teamMembers. IsActive m \<and> UserID m = r)"
  using findReplacement_result[OF assms]
  by (auto simp: replacement_candidates_eq)

theorem findReplacement_never_excluded_witness:
  "findReplacement PostgresStorage example_db 0 team_T ''A'' [''B'', ''C''] = (Inr ''D'', 0)
   \<and> findReplacement PostgresStorage_counts_down example_db 4 team_T ''A'' [''B''] = (Inr ''C'', 2)
   \<and> ''D'' \<noteq> ''A'' \<and> ''D'' \<notin> set [''B'', ''C'']
   \<and> (\<exists>m \<in> set team_T. IsActive m \<and> UserID m = ''D'')"
proof -
  have a: "findReplacement PostgresStorage example_db 0 team_T ''A'' [''B'', ''C''] = (Inr ''D'', 0)"
    by code_simp
  have b: "findReplacement PostgresStorage_counts_down example_db 4 team_T ''A'' [''B''] = (Inr ''C'', 2)"
    by code_simp
  show ?thesis
    using a b findReplacement_never_excluded[OF a] by simp
qed

text \<open>
  C4. \<open>findReplacement\<close> fails with \<open>NO_CANDIDATE\<close> exactly when no team member is active
  and outside the excluded set (the author and the current reviewers), and it fails with no
  other error.
\<close>

theorem findReplacement_NoCandidate_iff:
  "(fst (findReplacement repo s g teamMembers authorID currentReviewers) = Inl no_candidate
      \<longleftrightarrow> (\<forall>m \<in> set teamMembers.
             \<not> (IsActive m \<and> UserID m \<noteq> authorID \<and> UserID m \<notin> set currentReviewers)))
   \<and> (\<forall>e. fst (findReplacement repo s g teamMembers authorID currentReviewers) = Inl e
          \<longrightarrow> e = no_candidate \<and> Code e = ErrNoCandidate)"
proof -
  obtain res g' where r: "findReplacement repo s g teamMembers authorID currentReviewers = (res, g')"
    by (cases "findReplacement repo s g teamMembers authorID currentReviewers")
  show ?thesis
    using findReplacement_result[OF r] r
    by (auto simp: replacement_candidates_eq filter_empty_conv no_candidate_def)
qed

theorem findReplacement_NoCandidate_iff_witness:
  "fst (findReplacement PostgresStorage example_db 0 team_T ''A'' [''B'', ''C'', ''D'']) = Inl no_candidate
   \<and> replacement_candidates team_T ''A'' [''B'', ''C'', ''D''] = []
   \<and> Code no_candidate = ErrNoCandidate
   \<and> fst (findReplacement PostgresStorage example_db 0 team_T ''A'' [''B'', ''C'']) = Inr ''D''
   \<and> replacement_candidates team_T ''A'' [''B'', ''C''] = [team_member ''D'' ''T'' True]"
proof -
  have a: "replacement_candidates team_T ''A'' [''B'', ''C'', ''D''] = []"
    by code_simp
  have c: "\<forall>m \<in> set team_T.
      \<not> (IsActive m \<and> UserID m \<noteq> ''A'' \<and> UserID m \<notin> set [''B'', ''C'', ''D''])"
    using a unfolding replacement_candidates_eq filter_empty_conv .
  note t = findReplacement_NoCandidate_iff
             [of PostgresStorage example_db 0 team_T "''A''" "[''B'', ''C'', ''D'']"]
  have f: "fst (findReplacement PostgresStorage example_db 0 team_T ''A'' [''B'', ''C'', ''D''])
             = Inl no_candidate"
    by (rule iffD2[OF conjunct1[OF t] c])
  have k: "Code no_candidate = ErrNoCandidate"
    using conjunct2[OF t] f by blast
  have b: "fst (findReplacement PostgresStorage example_db 0 team_T ''A'' [''B'', ''C'']) = Inr ''D''"
    by code_simp
  have e: "replacement_candidates team_T ''A'' [''B'', ''C''] = [team_member ''D'' ''T'' True]"
    by code_simp
  show ?thesis
    by (intro conjI f a k b e)
qed

text \<open>
  C10. In \<open>findReplacement\<close>, for a non-empty candidate set whose review counts were
  retrieved, the tie group \<open>selected\<close> that the loop computes is not empty, so the function
  returns the id of one of its members: the \<open>NO_CANDIDATE\<close> after the loop is never reached.
\<close>

theorem findReplacement_tie_group_nonempty:
  assumes "replacement_candidates teamMembers authorID currentReviewers \<noteq> []"
      and "GetReviewCounts repo s
             (map UserID (replacement_candidates teamMembers authorID currentReviewers)) = Inr counts"
  shows "snd (min_load_loop counts
                (replacement_candidates teamMembers authorID currentReviewers) (- 1, [])) \<noteq> []
         \<and> (\<exists>c g'. findReplacement repo s g teamMembers authorID currentReviewers = (Inr (UserID c), g')
              \<and> c \<in> set (snd (min_load_loop counts
                    (replacement_candidates teamMembers authorID currentReviewers) (- 1, []))))"
proof -
  let ?cands = "replacement_candidates teamMembers authorID currentReviewers"
  let ?sel = "snd (min_load_loop counts ?cands (- 1, []))"
  have ne: "?sel \<noteq> []" using assms(1) by (intro min_load_loop_nonempty) simp
  then have "?sel ! (g mod length ?sel) \<in> set ?sel" by (intro nth_mem) simp
  moreover have "findReplacement repo s g teamMembers authorID currentReviewers
      = (Inr (UserID (?sel ! (g mod length ?sel))), g div length ?sel)"
    using assms ne by (simp add: findReplacement_def Let_def Intn_def)
  ultimately show ?thesis using ne by blast
qed

theorem findReplacement_tie_group_nonempty_witness:
  "replacement_candidates team_T ''A'' [''B''] \<noteq> []
   \<and> map UserID (snd (min_load_loop
         (projr (GetReviewCounts PostgresStorage example_db
                   (map UserID (replacement_candidates team_T ''A'' [''B'']))))
         (replacement_candidates team_T ''A'' [''B'']) (- 1, []))) = [''D'']
   \<and> findReplacement PostgresStorage example_db 7 team_T ''A'' [''B''] = (Inr ''D'', 7)"
proof -
  let ?cands = "replacement_candidates team_T ''A'' [''B'']"
  let ?counts = "projr (GetReviewCounts PostgresStorage example_db (map UserID ?cands))"
  have a: "?cands \<noteq> []" by code_simp
  have b: "GetReviewCounts PostgresStorage example_db (map UserID ?cands) = Inr ?counts"
    by (rule PostgresStorage_counts_Inr)
  have c: "map UserID (snd (min_load_loop ?counts ?cands (- 1, []))) = [''D'']" by code_simp
  have d: "findReplacement PostgresStorage example_db 7 team_T ''A'' [''B''] = (Inr ''D'', 7)"
    by code_simp
  show ?thesis
    using a c d findReplacement_tie_group_nonempty[OF a b, of 7] by simp
qed

end
